theory Spec2Isabelle
  imports Main
begin

section \<open>Python exceptions\<close>

text \<open>
  An exception is a class together with its message. The classes are the ones the
  repository's code can meet; \<open>KeyboardInterrupt\<close> and \<open>SystemExit\<close> derive from
  \<open>BaseException\<close> only, every other class derives from \<open>Exception\<close>.
\<close>

datatype exc_class =
    RuntimeError
  | UnboundLocalError
  | FileNotFoundError
  | FileExistsError
  | NotADirectoryError
  | IsADirectoryError
  | ValueError
  | OSError
  | PipelineError
  | KeyboardInterrupt
  | SystemExit

datatype py_error = Raised exc_class string

fun exc_class_of :: "py_error \<Rightarrow> exc_class" where
  "exc_class_of (Raised c m) = c"

fun message_of :: "py_error \<Rightarrow> string" where
  "message_of (Raised c m) = m"

text \<open>What \<open>except Exception\<close> catches.\<close>

fun is_Exception :: "py_error \<Rightarrow> bool" where
  "is_Exception (Raised c m) = (c \<noteq> KeyboardInterrupt \<and> c \<noteq> SystemExit)"

text \<open>\<open>sep.join(xs)\<close> on a list of strings.\<close>

fun py_join :: "'a list \<Rightarrow> 'a list list \<Rightarrow> 'a list" where
  "py_join sep [] = []"
| "py_join sep [x] = x"
| "py_join sep (x # y # ys) = x @ sep @ py_join sep (y # ys)"


section \<open>utils/data\_handling\_utils.py: join\_punctuation\<close>

text \<open>
  \<^verbatim>\<open>
  def join_punctuation(seq, characters='.,;?!:'):
      characters = set(characters)
      seq = iter(seq)
      current = next(seq)
      for nxt in seq:
          if nxt in characters:
              current += nxt
          else:
              yield current
              current = nxt
      yield current
      return ' '.join(seq)
  \<close>
  \<open>set(characters)\<close> is the set of the one-character strings of \<open>characters\<close>; a token
  is merged when it is equal to one of them.
\<close>

definition characters_set :: "string \<Rightarrow> string set" where
  "characters_set characters = (\<lambda>c. [c]) ` set characters"

text \<open>The \<open>for\<close> loop and the final \<open>yield\<close>: the tokens yielded from \<open>current\<close> on.\<close>

fun join_loop :: "string set \<Rightarrow> string \<Rightarrow> string list \<Rightarrow> string list" where
  "join_loop chars current [] = [current]"
| "join_loop chars current (nxt # seq) =
     (if nxt \<in> chars then join_loop chars (current @ nxt) seq
      else current # join_loop chars nxt seq)"

text \<open>
  A generator driven to its end: the tokens it yields, then how it stops, either by
  raising or by returning a value. \<open>next(seq)\<close> on an exhausted iterator raises
  \<open>StopIteration\<close> inside the generator body, which the interpreter turns into
  \<open>RuntimeError\<close> (PEP 479). After the loop the iterator is exhausted, so the returned
  value is the join of no strings.
\<close>

definition join_punctuation :: "string list \<Rightarrow> string \<Rightarrow> string list \<times> (py_error + string)" where
  "join_punctuation seq characters =
     (case seq of
        [] \<Rightarrow> ([], Inl (Raised RuntimeError ''generator raised StopIteration''))
      | current # rest \<Rightarrow>
          (join_loop (characters_set characters) current rest, Inr (py_join '' '' [])))"

definition characters_default :: string where
  "characters_default = ''.,;?!:''"


section \<open>main.py: the command-line launcher\<close>

text \<open>
  \<^verbatim>\<open>
  def launch():
      subprocess.run(["uvicorn", "application:app", "--host", "0.0.0.0", "--port", "8000"])
  def ingest_data():
      subprocess.run(["python3", "index_data/ingest_data_to_doc_store.py"])
  def main():
      ...
      args = parser.parse_args()
      if args.launch:
          launch()
      elif args.ingest_data:
          ingest_data()
      else:
          parser.print_help()
  \<close>
  The input of the model is the namespace \<open>parse_args\<close> returns: the two
  \<open>store_true\<close> flags. What \<open>main\<close> does is the list of its effects, in order.
\<close>

record cli_args =
  launch_flag :: bool
  ingest_data_flag :: bool

datatype cli_effect = Subprocess_run "string list" | Print_help

definition launch :: "cli_effect list" where
  "launch = [Subprocess_run [''uvicorn'', ''application:app'', ''--host'', ''0.0.0.0'', ''--port'', ''8000'']]"

definition ingest_data :: "cli_effect list" where
  "ingest_data = [Subprocess_run [''python3'', ''index_data/ingest_data_to_doc_store.py'']]"

text \<open>
  \<open>subprocess.run\<close> raises when the program cannot be started (the environment's
  \<open>can_start\<close>); a subprocess that ends with a non-zero status raises nothing, since
  \<open>check\<close> is not set. \<open>main\<close> gives its effects and how it ends.
\<close>

definition subprocess_run :: "(string list \<Rightarrow> bool) \<Rightarrow> string list \<Rightarrow> py_error + unit" where
  "subprocess_run can_start cmd =
     (if can_start cmd then Inr () else Inl (Raised FileNotFoundError (hd cmd)))"

fun run_effects :: "(string list \<Rightarrow> bool) \<Rightarrow> cli_effect list \<Rightarrow> py_error + unit" where
  "run_effects can_start [] = Inr ()"
| "run_effects can_start (Print_help # es) = run_effects can_start es"
| "run_effects can_start (Subprocess_run cmd # es) =
     (case subprocess_run can_start cmd of
        Inl e \<Rightarrow> Inl e
      | Inr u \<Rightarrow> run_effects can_start es)"

definition main_effects :: "cli_args \<Rightarrow> cli_effect list" where
  "main_effects args =
     (if launch_flag args then launch
      else if ingest_data_flag args then ingest_data
      else [Print_help])"

definition main :: "(string list \<Rightarrow> bool) \<Rightarrow> cli_args \<Rightarrow> cli_effect list \<times> (py_error + unit)" where
  "main can_start args = (main_effects args, run_effects can_start (main_effects args))"


section \<open>utils/data\_handling\_utils.py: get\_query\_doc\_pairs\_from\_dpr\_file\<close>

text \<open>
  \<^verbatim>\<open>
  def get_query_doc_pairs_from_dpr_file (dpr_filename):
      query_doc_pairs = []
      with open (dpr_filename, "r") as fp:
          data = json.load(fp)
          for d in data:
              question = d["question"]
              for positive_ctx in d["positive_ctxs"]:
                  document = positive_ctx["text"]
          query_doc_pairs.append({"question": question, "document": document})
      return query_doc_pairs
  \<close>
  The input of the model is the parsed file: a list of records. The local variables
  \<open>question\<close> and \<open>document\<close> are unbound until their first assignment, and reading an
  unbound local raises \<open>UnboundLocalError\<close>. The \<open>append\<close> stands after the outer loop.
\<close>

record positive_ctx =
  ctx_title :: string
  ctx_text :: string

record dpr_record =
  question :: string
  positive_ctxs :: "positive_ctx list"

record query_doc_pair =
  pair_question :: string
  pair_document :: string

text \<open>The inner loop: \<open>document\<close> after the contexts of one record.\<close>

fun ctx_loop :: "string option \<Rightarrow> positive_ctx list \<Rightarrow> string option" where
  "ctx_loop document [] = document"
| "ctx_loop document (c # cs) = ctx_loop (Some (ctx_text c)) cs"

text \<open>The outer loop: \<open>(question, document)\<close> after all records.\<close>

fun record_loop :: "string option \<times> string option \<Rightarrow> dpr_record list \<Rightarrow> string option \<times> string option" where
  "record_loop vars [] = vars"
| "record_loop (q, doc) (d # ds) =
     record_loop (Some (question d), ctx_loop doc (positive_ctxs d)) ds"

definition get_query_doc_pairs_from_dpr_file :: "dpr_record list \<Rightarrow> py_error + query_doc_pair list" where
  "get_query_doc_pairs_from_dpr_file data =
     (case record_loop (None, None) data of
        (None, doc) \<Rightarrow> Inl (Raised UnboundLocalError ''question'')
      | (Some q, None) \<Rightarrow> Inl (Raised UnboundLocalError ''document'')
      | (Some q, Some doc) \<Rightarrow> Inr ([] @ [\<lparr>pair_question = q, pair_document = doc\<rparr>]))"


section \<open>utils/data\_handling\_utils.py: remove\_incomplete\_sentences\<close>

text \<open>
  \<^verbatim>\<open>
  def remove_incomplete_sentences(text):
      nltk.download('punkt')
      sentences = nltk.sent_tokenize(text)
      complete_sentences = []
      sentence_end_regex = re.compile(r'.*[\.\;!]$')
      for sentence in sentences:
          if sentence_end_regex.match(sentence.strip()):
              complete_sentences.append(sentence)
      filtered_text = ' '.join(complete_sentences)
      return filtered_text
  \<close>
  A Python string is a sequence of code points, here a list of natural numbers;
  \<open>str\<close> reads a literal. The sentence tokenizer is a library model and enters as the
  parameter \<open>sent_tokenize\<close>.
\<close>

type_synonym pystr = "nat list"

definition str :: "string \<Rightarrow> pystr" where
  "str s = map of_char s"

text \<open>The code points \<open>str.strip()\<close> removes: those for which \<open>str.isspace\<close> holds.\<close>

definition whitespace :: "nat list" where
  "whitespace = [9, 10, 11, 12, 13, 28, 29, 30, 31, 32, 133, 160, 5760,
      8192, 8193, 8194, 8195, 8196, 8197, 8198, 8199, 8200, 8201, 8202,
      8232, 8233, 8239, 8287, 12288]"

definition is_space :: "nat \<Rightarrow> bool" where
  "is_space c = (c \<in> set whitespace)"

definition py_strip :: "pystr \<Rightarrow> pystr" where
  "py_strip s = rev (dropWhile is_space (rev (dropWhile is_space s)))"

text \<open>
  The pattern \<open>.*[\.\;!]$\<close>, compiled without flags and applied with \<open>match\<close>, which
  anchors it at the start of the string. Without \<open>DOTALL\<close> the dot matches every
  character but the newline (code point 10); without \<open>MULTILINE\<close> the dollar matches at
  the end of the string and just before a newline that ends the string.
\<close>

definition dot_matches :: "nat \<Rightarrow> bool" where
  "dot_matches c = (c \<noteq> 10)"

definition in_class :: "nat \<Rightarrow> bool" where
  "in_class c = (c \<in> set (str ''.;!''))"

definition at_dollar :: "pystr \<Rightarrow> bool" where
  "at_dollar rest = (rest = [] \<or> rest = [10])"

text \<open>
  At each position the star either stops, and the class and the dollar must match
  there, or takes one more character that the dot matches.
\<close>

fun sentence_end_regex_match :: "pystr \<Rightarrow> bool" where
  "sentence_end_regex_match [] = False"
| "sentence_end_regex_match (c # cs) =
     ((in_class c \<and> at_dollar cs) \<or> (dot_matches c \<and> sentence_end_regex_match cs))"

fun complete_loop :: "pystr list \<Rightarrow> pystr list \<Rightarrow> pystr list" where
  "complete_loop complete_sentences [] = complete_sentences"
| "complete_loop complete_sentences (sentence # sentences) =
     (if sentence_end_regex_match (py_strip sentence)
      then complete_loop (complete_sentences @ [sentence]) sentences
      else complete_loop complete_sentences sentences)"

definition remove_incomplete_sentences :: "(pystr \<Rightarrow> pystr list) \<Rightarrow> pystr \<Rightarrow> pystr" where
  "remove_incomplete_sentences sent_tokenize text =
     py_join (str '' '') (complete_loop [] (sent_tokenize text))"

text \<open>What the claim asks of a kept sentence: its trimmed text ends in one of \<open>. ; !\<close>\<close>

definition ends_in_terminal :: "pystr \<Rightarrow> bool" where
  "ends_in_terminal s = (s \<noteq> [] \<and> in_class (last s))"

text \<open>A tokenizer that finds one sentence, the whole text.\<close>

definition one_sentence :: "pystr \<Rightarrow> pystr list" where
  "one_sentence text = [text]"


section \<open>utils/data\_handling\_utils.py: split\_squad\_dataset\<close>

text \<open>
  \<^verbatim>\<open>
  def split_squad_dataset (filepath, split_ratio: int = 0.1):
      with open(filepath, encoding="utf-8") as f:
          data = json.load(f)
          num_of_examples =  SquadData (data).count()
          data = data["data"]
          random.shuffle(data)
          counter = 0
          test_set = []
          for article in data:
              for paragraph in article["paragraphs"]:
                  counter += (len(paragraph["qas"]))
              if counter >= round (num_of_examples * split_ratio):
                  break
              else:
                  test_set.append (article)
          train_set = {"data" : data [len(test_set):]}
          test_set = {"data" : test_set}
      print (f"train set instances: {(num_of_examples-counter)}\n dev set instances: {counter}")
      ... train_set is written to train_file.json, test_set to dev_file.json
  \<close>
  The input of the model is the article list as \<open>random.shuffle\<close> left it.
  \<open>round (num_of_examples * split_ratio)\<close> is a floating-point computation; its value
  enters as the parameter \<open>threshold\<close>. \<open>SquadData(data).count()\<close> is the number of
  questions of the dataset.
\<close>

record qa =
  qa_id :: string
  qa_question :: string

record squad_paragraph =
  paragraph_context :: string
  qas :: "qa list"

record article =
  title :: string
  paragraphs :: "squad_paragraph list"

text \<open>The inner loop: \<open>counter\<close> after the paragraphs of one article.\<close>

fun paragraph_loop :: "int \<Rightarrow> squad_paragraph list \<Rightarrow> int" where
  "paragraph_loop counter [] = counter"
| "paragraph_loop counter (p # ps) = paragraph_loop (counter + int (length (qas p))) ps"

text \<open>The outer loop, which breaks before the \<open>append\<close>.\<close>

fun article_loop :: "int \<Rightarrow> int \<Rightarrow> article list \<Rightarrow> article list \<Rightarrow> int \<times> article list" where
  "article_loop threshold counter test_set [] = (counter, test_set)"
| "article_loop threshold counter test_set (a # rest) =
     (let counter' = paragraph_loop counter (paragraphs a)
      in if counter' \<ge> threshold then (counter', test_set)
         else article_loop threshold counter' (test_set @ [a]) rest)"

definition squad_count :: "article list \<Rightarrow> int" where
  "squad_count data = (\<Sum>a \<leftarrow> data. \<Sum>p \<leftarrow> paragraphs a. int (length (qas p)))"

record split_output =
  train_file :: "article list"
  dev_file :: "article list"
  printed_train :: int
  printed_dev :: int

definition split_squad_dataset :: "int \<Rightarrow> article list \<Rightarrow> split_output" where
  "split_squad_dataset threshold data =
     (let num_of_examples = squad_count data;
          (counter, test_set) = article_loop threshold 0 [] data;
          train_set = drop (length test_set) data
      in \<lparr>train_file = train_set, dev_file = test_set,
          printed_train = num_of_examples - counter, printed_dev = counter\<rparr>)"

text \<open>An article with one paragraph and one question, and a dataset of ten of them.\<close>

definition one_question_article :: "string \<Rightarrow> article" where
  "one_question_article t =
     \<lparr>title = t, paragraphs = [\<lparr>paragraph_context = ''c'', qas = [\<lparr>qa_id = t, qa_question = ''q''\<rparr>]\<rparr>]\<rparr>"

definition ten_articles :: "article list" where
  "ten_articles = map one_question_article
     [''a0'', ''a1'', ''a2'', ''a3'', ''a4'', ''a5'', ''a6'', ''a7'', ''a8'', ''a9'']"


section \<open>system/fine\_tune\_model.py: fine\_tune\_reader\_model\<close>

text \<open>
  \<^verbatim>\<open>
  def fine_tune_reader_model (model_name_or_path, data_dir, train_filename,  save_dir, use_gpu=True):
      # Create output directory if doesn't exist already
      try:
          os.path.isdir(save_dir)
      except FileNotFoundError:
          os.mkdir(save_dir)
      reader = FARMReader(model_name_or_path = model_name_or_path)
      try:
        reader.train(data_dir = data_dir, train_filename = train_filename, use_gpu = use_gpu,
            batch_size= 12, n_epochs = 1, max_seq_len = 384, save_dir  = save_dir,
            num_processes = 1)
        print (f'Model fine-tuning done. Model saved in directory: {save_dir}')
      except Exception as e:
        print (e)
  \<close>
  The state is the set of existing directories and the lines printed so far.
\<close>

record ft_state =
  dirs :: "string set"
  stdout :: "string list"

text \<open>
  \<open>os.path.isdir\<close> answers \<open>False\<close> for a path that does not exist; it raises nothing.
  \<open>os.mkdir\<close> raises when the directory is there already.
\<close>

definition os_path_isdir :: "ft_state \<Rightarrow> string \<Rightarrow> py_error + bool" where
  "os_path_isdir s path = Inr (path \<in> dirs s)"

definition os_mkdir :: "ft_state \<Rightarrow> string \<Rightarrow> py_error + ft_state" where
  "os_mkdir s path =
     (if path \<in> dirs s then Inl (Raised FileExistsError path)
      else Inr (s\<lparr>dirs := insert path (dirs s)\<rparr>))"

definition print :: "string \<Rightarrow> ft_state \<Rightarrow> ft_state" where
  "print line s = s\<lparr>stdout := stdout s @ [line]\<rparr>"

text \<open>
  The first \<open>try\<close> statement: the value of \<open>os.path.isdir\<close> is dropped, and \<open>os.mkdir\<close>
  runs in the handler of \<open>FileNotFoundError\<close> only.
\<close>

definition create_output_dir :: "ft_state \<Rightarrow> string \<Rightarrow> py_error + ft_state" where
  "create_output_dir s save_dir =
     (case os_path_isdir s save_dir of
        Inr b \<Rightarrow> Inr s
      | Inl e \<Rightarrow>
          (if exc_class_of e = FileNotFoundError then os_mkdir s save_dir else Inl e))"

text \<open>
  The reader library: loading a model may raise; training takes the keyword arguments in
  the order of the call and the state it starts from, and gives the exception it raised,
  if any, and the state it left.
\<close>

record 'r ft_env =
  FARMReader :: "string \<Rightarrow> py_error + 'r"
  reader_train ::
    "'r \<Rightarrow> string \<Rightarrow> string \<Rightarrow> bool \<Rightarrow> nat \<Rightarrow> nat \<Rightarrow> nat \<Rightarrow> string \<Rightarrow> nat \<Rightarrow> ft_state
       \<Rightarrow> py_error option \<times> ft_state"

definition fine_tune_reader_model ::
  "'r ft_env \<Rightarrow> ft_state \<Rightarrow> string \<Rightarrow> string \<Rightarrow> string \<Rightarrow> string \<Rightarrow> bool
     \<Rightarrow> (py_error + unit) \<times> ft_state" where
  "fine_tune_reader_model env s model_name_or_path data_dir train_filename save_dir use_gpu =
     (case create_output_dir s save_dir of
        Inl e \<Rightarrow> (Inl e, s)
      | Inr s1 \<Rightarrow>
          (case FARMReader env model_name_or_path of
             Inl e \<Rightarrow> (Inl e, s1)
           | Inr reader \<Rightarrow>
               (case reader_train env reader data_dir train_filename use_gpu 12 1 384 save_dir 1 s1 of
                  (None, s2) \<Rightarrow>
                    (Inr (), print (''Model fine-tuning done. Model saved in directory: '' @ save_dir) s2)
                | (Some e, s2) \<Rightarrow>
                    (if is_Exception e then (Inr (), print (message_of e) s2) else (Inl e, s2)))))"

text \<open>
  Two reader libraries for concrete runs: one whose training ends normally and touches no
  directory, one whose training raises.
\<close>

definition quiet_reader_env :: "string ft_env" where
  "quiet_reader_env =
     \<lparr>FARMReader = (\<lambda>model_name_or_path. Inr model_name_or_path),
      reader_train = (\<lambda>reader dd tf gpu bs ne msl sd np st. (None, st))\<rparr>"

definition raising_reader_env :: "string ft_env" where
  "raising_reader_env =
     \<lparr>FARMReader = (\<lambda>model_name_or_path. Inr model_name_or_path),
      reader_train = (\<lambda>reader dd tf gpu bs ne msl sd np st.
         (Some (Raised RuntimeError ''CUDA out of memory''), st))\<rparr>"


section \<open>application.py: the query endpoints\<close>

text \<open>
  \<^verbatim>\<open>
  async def ask_retriever_reader_pipeline(request: QueryRequest):
      start_time = time.time()
      params = request.params or {}
      result = extractive_qa_pipeline.run(query=request.query, params=params)
      # Ensure answers and documents exist, even if they're empty lists
      if "documents" not in result:
          result["documents"] = []
      if "answers" not in result:
          result["answers"] = []
      logging.info(json.dumps({"request": request.dict(), "response": result, "time": ...}, default=str))
      return result
  \<close>
  \<open>ask_rag_pipeline\<close> is the same text over \<open>rag_pipeline\<close>, with the tests written
  \<open>not "documents" in result\<close> and \<open>not "answers" in result\<close>. The pipelines are
  parameters: a run gives a result mapping or raises. The elapsed time is a parameter.
\<close>

datatype pyval =
    PyNone
  | PyStr string
  | PyInt int
  | PyList "pyval list"
  | PyDict "(string \<times> pyval) list"

type_synonym py_dict = "string \<rightharpoonup> pyval"

fun is_list :: "pyval \<Rightarrow> bool" where
  "is_list (PyList xs) = True"
| "is_list v = False"

definition key_in :: "string \<Rightarrow> py_dict \<Rightarrow> bool" where
  "key_in key d = (d key \<noteq> None)"

record query_request =
  query :: string
  params :: "py_dict option"

record log_entry =
  log_request :: query_request
  log_response :: py_dict
  log_time :: string

text \<open>\<open>request.params or {}\<close>\<close>

definition params_or_empty :: "query_request \<Rightarrow> py_dict" where
  "params_or_empty request = (case params request of None \<Rightarrow> Map.empty | Some p \<Rightarrow> p)"

definition ask_retriever_reader_pipeline ::
  "(string \<Rightarrow> py_dict \<Rightarrow> py_error + py_dict) \<Rightarrow> string \<Rightarrow> query_request \<Rightarrow> log_entry list
     \<Rightarrow> (py_error + py_dict) \<times> log_entry list" where
  "ask_retriever_reader_pipeline extractive_qa_pipeline_run elapsed request log =
     (case extractive_qa_pipeline_run (query request) (params_or_empty request) of
        Inl e \<Rightarrow> (Inl e, log)
      | Inr result \<Rightarrow>
          (let result1 = (if \<not> key_in ''documents'' result
                          then result(''documents'' \<mapsto> PyList []) else result);
               result2 = (if \<not> key_in ''answers'' result1
                          then result1(''answers'' \<mapsto> PyList []) else result1)
           in (Inr result2,
               log @ [\<lparr>log_request = request, log_response = result2, log_time = elapsed\<rparr>])))"

definition ask_rag_pipeline ::
  "(string \<Rightarrow> py_dict \<Rightarrow> py_error + py_dict) \<Rightarrow> string \<Rightarrow> query_request \<Rightarrow> log_entry list
     \<Rightarrow> (py_error + py_dict) \<times> log_entry list" where
  "ask_rag_pipeline rag_pipeline_run elapsed request log =
     (case rag_pipeline_run (query request) (params_or_empty request) of
        Inl e \<Rightarrow> (Inl e, log)
      | Inr result \<Rightarrow>
          (let result1 = (if \<not> key_in ''documents'' result
                          then result(''documents'' \<mapsto> PyList []) else result);
               result2 = (if \<not> key_in ''answers'' result1
                          then result1(''answers'' \<mapsto> PyList []) else result1)
           in (Inr result2,
               log @ [\<lparr>log_request = request, log_response = result2, log_time = elapsed\<rparr>])))"

text \<open>
  The pipeline framework's output contract: where a result has the key \<open>answers\<close> or
  \<open>documents\<close>, its value is a list.
\<close>

definition lists_where_present :: "py_dict \<Rightarrow> bool" where
  "lists_where_present result =
     ((case result ''answers'' of None \<Rightarrow> True | Some v \<Rightarrow> is_list v)
      \<and> (case result ''documents'' of None \<Rightarrow> True | Some v \<Rightarrow> is_list v))"

definition has_list :: "py_dict \<Rightarrow> string \<Rightarrow> bool" where
  "has_list response key = (case response key of None \<Rightarrow> False | Some v \<Rightarrow> is_list v)"

text \<open>A pipeline run whose result has neither key.\<close>

definition bare_pipeline_run :: "string \<Rightarrow> py_dict \<Rightarrow> py_error + py_dict" where
  "bare_pipeline_run q p = Inr [''query'' \<mapsto> PyStr q]"

definition example_request :: query_request where
  "example_request = \<lparr>query = ''what is covid'', params = None\<rparr>"


section \<open>application.py: upload\_files\<close>

text \<open>
  \<^verbatim>\<open>
  def upload_files(files, keep_files: Optional[bool] = False, recreate_index: Optional[bool] = False):
      file_paths = []
      for file_to_upload in files:
          file_path = Path(FILE_UPLOAD_PATH) / f"{uuid.uuid4().hex}_{file_to_upload.filename}"
          with file_path.open("wb") as fo:
              fo.write(file_to_upload.file.read())
          file_paths.append(file_path)
          file_to_upload.file.close()
      if recreate_index:
          ds = indexing_pipeline.get_node("DocumentStore")
          ds.recreate_index = True
      result = indexing_pipeline.run(file_paths=file_paths)
      for document in result.get('documents', []):
          if isinstance(document.embedding, ndarray):
              document.embedding = document.embedding.tolist()
      if not keep_files:
          for p in file_paths:
              p.unlink()
      return result
  \<close>
  The upload directory holds regular files only: it is a map from file names to
  contents, and a path is the name of a file in it. \<open>uuid4_hex i\<close> is the token of the
  \<open>i\<close>-th call of \<open>uuid.uuid4().hex\<close>, a string of hexadecimal digits. The file name comes
  from the client and may be any string. The indexing pipeline is a parameter: a run
  reads the state and the paths and gives a result or raises; it leaves the upload
  directory as it is.
\<close>

type_synonym directory = "string \<rightharpoonup> string"

record upload_file =
  filename :: string
  file_bytes :: string

datatype embedding = No_embedding | Ndarray "int list" | Plain_list "int list"

record document =
  doc_id :: string
  doc_content :: string
  doc_embedding :: embedding

record index_result =
  documents :: "document list option"
  file_paths_out :: "string list"

record app_state =
  file_upload :: directory
  recreate_index_flag :: bool

text \<open>
  \<open>Path(FILE_UPLOAD_PATH) / name\<close> splits \<open>name\<close> at the slashes and drops the empty
  components and the components \<open>.\<close>
\<close>

fun split_slash :: "string \<Rightarrow> string list" where
  "split_slash [] = [[]]"
| "split_slash (c # cs) =
     (if c = CHR ''/'' then [] # split_slash cs
      else (case split_slash cs of
              [] \<Rightarrow> [[c]]
            | p # ps \<Rightarrow> (c # p) # ps))"

definition path_parts :: "string \<Rightarrow> string list" where
  "path_parts name = filter (\<lambda>p. p \<noteq> [] \<and> p \<noteq> ''.'') (split_slash name)"

text \<open>
  \<open>file_path.open("wb")\<close> in the upload directory \<open>dir\<close>: the name of the file it
  creates or truncates, or the exception it raises. A name with a null character raises
  \<open>ValueError\<close>. A path of one component names a file of the upload directory, which the
  operating system may still refuse to create (a name that is too long, a full disk):
  \<open>os_error\<close> is its answer. A path of several components needs its first component to
  be a directory; the upload directory has none, so the call raises
  \<open>FileNotFoundError\<close>, or \<open>NotADirectoryError\<close> when the first component is a file.
  A path without components is the upload directory itself.
\<close>

definition open_wb :: "(string \<Rightarrow> py_error option) \<Rightarrow> directory \<Rightarrow> string \<Rightarrow> py_error + string" where
  "open_wb os_error dir name =
     (if CHR 0x00 \<in> set name then Inl (Raised ValueError ''embedded null byte'')
      else (case path_parts name of
              [] \<Rightarrow> Inl (Raised IsADirectoryError name)
            | [file] \<Rightarrow>
                (if file = ''..'' then Inl (Raised IsADirectoryError name)
                 else (case os_error file of
                         Some e \<Rightarrow> Inl e
                       | None \<Rightarrow> Inr file))
            | d # p # ps \<Rightarrow>
                (if dir d = None then Inl (Raised FileNotFoundError name)
                 else Inl (Raised NotADirectoryError name))))"

text \<open>
  The write loop: an exception of \<open>open\<close> ends it, with the files written so far left in
  the upload directory.
\<close>

fun write_loop :: "(string \<Rightarrow> py_error option) \<Rightarrow> (nat \<Rightarrow> string) \<Rightarrow> nat \<Rightarrow> directory
    \<Rightarrow> string list \<Rightarrow> upload_file list \<Rightarrow> py_error option \<times> directory \<times> string list" where
  "write_loop os_error uuid4_hex i dir file_paths [] = (None, dir, file_paths)"
| "write_loop os_error uuid4_hex i dir file_paths (file_to_upload # files) =
     (case open_wb os_error dir (uuid4_hex i @ ''_'' @ filename file_to_upload) of
        Inl e \<Rightarrow> (Some e, dir, file_paths)
      | Inr file_path \<Rightarrow>
          write_loop os_error uuid4_hex (Suc i) (dir(file_path \<mapsto> file_bytes file_to_upload))
            (file_paths @ [file_path]) files)"

fun tolist :: "document \<Rightarrow> document" where
  "tolist d = (case doc_embedding d of
                 Ndarray xs \<Rightarrow> d\<lparr>doc_embedding := Plain_list xs\<rparr>
               | _ \<Rightarrow> d)"

text \<open>\<open>result.get('documents', [])\<close>: a result without the key has nothing to convert.\<close>

definition convert_embeddings :: "index_result \<Rightarrow> index_result" where
  "convert_embeddings result =
     (case documents result of
        None \<Rightarrow> result
      | Some ds \<Rightarrow> result\<lparr>documents := Some (map tolist ds)\<rparr>)"

text \<open>\<open>Path.unlink\<close> raises \<open>FileNotFoundError\<close> on a missing file, which ends the loop.\<close>

fun unlink_loop :: "directory \<Rightarrow> string list \<Rightarrow> py_error option \<times> directory" where
  "unlink_loop dir [] = (None, dir)"
| "unlink_loop dir (p # ps) =
     (case dir p of
        None \<Rightarrow> (Some (Raised FileNotFoundError p), dir)
      | Some b \<Rightarrow> unlink_loop (dir(p := None)) ps)"

text \<open>
  The statements before the indexing run: the exception of the write loop, if any, and
  else the state and the paths the indexing run is called with.
\<close>

definition save_uploads :: "(string \<Rightarrow> py_error option) \<Rightarrow> (nat \<Rightarrow> string) \<Rightarrow> app_state
    \<Rightarrow> upload_file list \<Rightarrow> bool option \<Rightarrow> py_error option \<times> app_state \<times> string list" where
  "save_uploads os_error uuid4_hex s files recreate_index =
     (case write_loop os_error uuid4_hex 0 (file_upload s) [] files of
        (Some e, dir, file_paths) \<Rightarrow> (Some e, s\<lparr>file_upload := dir\<rparr>, file_paths)
      | (None, dir, file_paths) \<Rightarrow>
          (let s1 = s\<lparr>file_upload := dir\<rparr>;
               s2 = (if recreate_index = Some True then s1\<lparr>recreate_index_flag := True\<rparr> else s1)
           in (None, s2, file_paths)))"

text \<open>
  \<open>keep_files\<close> is an \<open>Optional[bool]\<close>: \<open>not keep_files\<close> holds for \<open>None\<close> and for
  \<open>False\<close>. An exception of the write loop or of the indexing run leaves the function
  at once.
\<close>

definition upload_files ::
  "(app_state \<Rightarrow> string list \<Rightarrow> py_error + index_result) \<Rightarrow> (string \<Rightarrow> py_error option)
     \<Rightarrow> (nat \<Rightarrow> string) \<Rightarrow> app_state \<Rightarrow> upload_file list \<Rightarrow> bool option \<Rightarrow> bool option
     \<Rightarrow> (py_error + index_result) \<times> app_state" where
  "upload_files indexing_pipeline_run os_error uuid4_hex s files keep_files recreate_index =
     (case save_uploads os_error uuid4_hex s files recreate_index of
        (Some e, s1, file_paths) \<Rightarrow> (Inl e, s1)
      | (None, s2, file_paths) \<Rightarrow>
          (case indexing_pipeline_run s2 file_paths of
             Inl e \<Rightarrow> (Inl e, s2)
           | Inr result \<Rightarrow>
               (let result1 = convert_embeddings result
                in if keep_files \<noteq> Some True
                   then (case unlink_loop (file_upload s2) file_paths of
                           (Some e, dir) \<Rightarrow> (Inl e, s2\<lparr>file_upload := dir\<rparr>)
                         | (None, dir) \<Rightarrow> (Inr result1, s2\<lparr>file_upload := dir\<rparr>))
                   else (Inr result1, s2))))"

text \<open>
  Concrete requests of two files, the second one with a plain name or with a name that
  has a directory part; an operating system that refuses nothing; an indexing run that
  raises and one that returns.
\<close>

definition example_uuid4_hex :: "nat \<Rightarrow> string" where
  "example_uuid4_hex i = (if i = 0 then ''0f3a'' else ''9c1e'')"

definition example_files :: "upload_file list" where
  "example_files = [\<lparr>filename = ''a.txt'', file_bytes = ''alpha''\<rparr>,
                    \<lparr>filename = ''b.txt'', file_bytes = ''beta''\<rparr>]"

definition example_files_subdir :: "upload_file list" where
  "example_files_subdir = [\<lparr>filename = ''a.txt'', file_bytes = ''alpha''\<rparr>,
                           \<lparr>filename = ''sub/b.txt'', file_bytes = ''beta''\<rparr>]"

definition no_os_error :: "string \<Rightarrow> py_error option" where
  "no_os_error file = None"

definition empty_app_state :: app_state where
  "empty_app_state = \<lparr>file_upload = Map.empty, recreate_index_flag = False\<rparr>"

definition failing_indexing_run :: "app_state \<Rightarrow> string list \<Rightarrow> py_error + index_result" where
  "failing_indexing_run s file_paths = Inl (Raised PipelineError ''document store unavailable'')"

definition succeeding_indexing_run :: "app_state \<Rightarrow> string list \<Rightarrow> py_error + index_result" where
  "succeeding_indexing_run s file_paths = Inr \<lparr>documents = Some [], file_paths_out = file_paths\<rparr>"


section \<open>dev/evaluation/main.py: run\_experiment\<close>

text \<open>
  \<^verbatim>\<open>
  def get_eval_labels_and_paths(document_store, tempdir):
      file_paths = []
      docs = document_store.get_all_documents()
      for doc in docs:
          file_name = f"{doc.id}.txt"
          file_path = Path(tempdir.name) / file_name
          file_paths.append(file_path)
          with open(file_path, "w") as f:
              f.write(doc.content)
      evaluation_set_labels = document_store.get_all_labels_aggregated(...)
      return evaluation_set_labels, file_paths

  def run_experiment(exp_name, eval_filename, pipeline_path, run_name, query_params=...):
      temp_dir = tempfile.TemporaryDirectory()
      eval_ds = InMemoryDocumentStore()
      index_eval_labels(eval_ds, eval_filename)
      evaluations_set_labels, file_paths = get_eval_labels_and_paths(eval_ds, temp_dir)
      query_pipeline = Pipeline.load_from_yaml(path=Path(pipeline_path), pipeline_name='query')
      index_pipeline = Pipeline.load_from_yaml(path=Path(pipeline_path), pipeline_name='indexing')
      Pipeline.execute_eval_run(index_pipeline=index_pipeline, query_pipeline=query_pipeline,
          evaluation_set_labels=evaluations_set_labels, corpus_file_paths=file_paths,
          experiment_name=exp_name, experiment_run_name=run_name,
          evaluation_set_meta=os.path.basename(eval_filename), ..., query_params=query_params, ...)
      temp_dir.cleanup()
  \<close>
  The file system maps a directory name to the files in it. The libraries are the
  environment: the name \<open>TemporaryDirectory\<close> picks, the store that
  \<open>index_eval_labels\<close> fills from the dataset file, the pipeline loader and the
  evaluation run; each of the last three may raise.
\<close>

type_synonym filesystem = "string \<rightharpoonup> directory"

text \<open>
  A \<open>tempfile.TemporaryDirectory\<close> object creates its directory and registers a
  finalizer that removes the directory. The state is the file system together with the
  directories whose finalizer is registered and has not run yet.
\<close>

record eval_state =
  disk :: filesystem
  finalizers :: "string list"

record eval_doc =
  eval_doc_id :: string
  eval_doc_content :: string

record 'l document_store =
  all_documents :: "eval_doc list"
  all_labels_aggregated :: "'l list"

record ('l, 'p, 'q) eval_env =
  mkdtemp :: string
  add_eval_data :: "string \<Rightarrow> py_error + 'l document_store"
  load_from_yaml :: "string \<Rightarrow> string \<Rightarrow> py_error + 'p"
  execute_eval_run ::
    "'p \<Rightarrow> 'p \<Rightarrow> 'l list \<Rightarrow> string list \<Rightarrow> string \<Rightarrow> string \<Rightarrow> string \<Rightarrow> 'q \<Rightarrow> py_error option"

definition index_eval_labels :: "('l, 'p, 'q) eval_env \<Rightarrow> string \<Rightarrow> py_error + 'l document_store" where
  "index_eval_labels env eval_filename = add_eval_data env eval_filename"

text \<open>Writing a file into a directory that does not exist raises \<open>FileNotFoundError\<close>.\<close>

fun doc_loop :: "string \<Rightarrow> filesystem \<Rightarrow> string list \<Rightarrow> eval_doc list
    \<Rightarrow> py_error option \<times> filesystem \<times> string list" where
  "doc_loop tempdir fs file_paths [] = (None, fs, file_paths)"
| "doc_loop tempdir fs file_paths (doc # docs) =
     (let file_name = eval_doc_id doc @ ''.txt'';
          file_path = tempdir @ ''/'' @ file_name
      in case fs tempdir of
           None \<Rightarrow> (Some (Raised FileNotFoundError file_path), fs, file_paths @ [file_path])
         | Some files \<Rightarrow>
             doc_loop tempdir (fs(tempdir \<mapsto> files(file_name \<mapsto> eval_doc_content doc)))
               (file_paths @ [file_path]) docs)"

definition get_eval_labels_and_paths ::
  "'l document_store \<Rightarrow> string \<Rightarrow> filesystem \<Rightarrow> (py_error + 'l list \<times> string list) \<times> filesystem" where
  "get_eval_labels_and_paths document_store tempdir fs =
     (case doc_loop tempdir fs [] (all_documents document_store) of
        (Some e, fs1, file_paths) \<Rightarrow> (Inl e, fs1)
      | (None, fs1, file_paths) \<Rightarrow>
          (let evaluation_set_labels = all_labels_aggregated document_store
           in (Inr (evaluation_set_labels, file_paths), fs1)))"

text \<open>The paths of the corpus files, one for each document of the store.\<close>

definition corpus_file_paths :: "string \<Rightarrow> eval_doc list \<Rightarrow> string list" where
  "corpus_file_paths tempdir docs = map (\<lambda>doc. tempdir @ ''/'' @ eval_doc_id doc @ ''.txt'') docs"

definition basename :: "string \<Rightarrow> string" where
  "basename path = rev (takeWhile (\<lambda>c. c \<noteq> CHR ''/'') (rev path))"

text \<open>
  \<open>tempfile.TemporaryDirectory()\<close> creates the directory and registers its finalizer.
  \<open>temp_dir.cleanup()\<close> detaches the finalizer and removes the directory.
\<close>

definition TemporaryDirectory :: "string \<Rightarrow> eval_state \<Rightarrow> eval_state" where
  "TemporaryDirectory name st =
     st\<lparr>disk := (disk st)(name \<mapsto> Map.empty), finalizers := finalizers st @ [name]\<rparr>"

definition cleanup :: "string \<Rightarrow> eval_state \<Rightarrow> eval_state" where
  "cleanup name st =
     st\<lparr>disk := (disk st)(name := None), finalizers := removeAll name (finalizers st)\<rparr>"

text \<open>
  The end of the run. The \<open>TemporaryDirectory\<close> object is a local variable of
  \<open>run_experiment\<close>: it is collected once the frame is released, which is at the return
  of the function, or when the exception that left the function has been dropped, and
  at the latest when the interpreter exits. The finalizers that are still registered
  run then, and each removes its directory.
\<close>

definition finalize :: "eval_state \<Rightarrow> eval_state" where
  "finalize st = st\<lparr>disk := disk st |` (- set (finalizers st)), finalizers := []\<rparr>"

text \<open>The body of \<open>run_experiment\<close>, up to the point where it returns or an exception leaves it.\<close>

definition run_experiment ::
  "('l, 'p, 'q) eval_env \<Rightarrow> eval_state \<Rightarrow> string \<Rightarrow> string \<Rightarrow> string \<Rightarrow> string \<Rightarrow> 'q
     \<Rightarrow> (py_error + unit) \<times> eval_state" where
  "run_experiment env st exp_name eval_filename pipeline_path run_name query_params =
     (let temp_dir = mkdtemp env;
          st1 = TemporaryDirectory temp_dir st
      in case index_eval_labels env eval_filename of
           Inl e \<Rightarrow> (Inl e, st1)
         | Inr eval_ds \<Rightarrow>
             (case get_eval_labels_and_paths eval_ds temp_dir (disk st1) of
                (Inl e, fs2) \<Rightarrow> (Inl e, st1\<lparr>disk := fs2\<rparr>)
              | (Inr (evaluations_set_labels, file_paths), fs2) \<Rightarrow>
                  (case load_from_yaml env pipeline_path ''query'' of
                     Inl e \<Rightarrow> (Inl e, st1\<lparr>disk := fs2\<rparr>)
                   | Inr query_pipeline \<Rightarrow>
                       (case load_from_yaml env pipeline_path ''indexing'' of
                          Inl e \<Rightarrow> (Inl e, st1\<lparr>disk := fs2\<rparr>)
                        | Inr index_pipeline \<Rightarrow>
                            (case execute_eval_run env index_pipeline query_pipeline
                                    evaluations_set_labels file_paths exp_name run_name
                                    (basename eval_filename) query_params of
                               Some e \<Rightarrow> (Inl e, st1\<lparr>disk := fs2\<rparr>)
                             | None \<Rightarrow> (Inr (), cleanup temp_dir (st1\<lparr>disk := fs2\<rparr>)))))))"






section \<open>Properties of join\_punctuation\<close>

lemma join_loop_nonempty: "join_loop chars current seq \<noteq> []"
  by (induction seq arbitrary: current) auto

text \<open>
  C10. On the empty token sequence the generator raises at its first advance, having
  yielded nothing; on every non-empty token sequence it yields at least one token and
  then ends normally.
\<close>

theorem join_punctuation_requires_nonempty:
  "join_punctuation [] characters = ([], Inl (Raised RuntimeError ''generator raised StopIteration''))
   \<and> (seq \<noteq> [] \<longrightarrow>
        (\<exists>tokens r. join_punctuation seq characters = (tokens, Inr r) \<and> tokens \<noteq> []))"
  by (cases seq) (simp_all add: join_punctuation_def join_loop_nonempty)

theorem join_punctuation_requires_nonempty_witness:
  "[''Hello'', '','', ''world'', ''!''] \<noteq> []
   \<and> join_punctuation [''Hello'', '','', ''world'', ''!''] characters_default
       = ([''Hello,'', ''world!''], Inr [])
   \<and> join_punctuation [] characters_default
       = ([], Inl (Raised RuntimeError ''generator raised StopIteration''))"
  using join_punctuation_requires_nonempty [of characters_default "[''Hello'', '','', ''world'', ''!'']"]
  by (simp add: join_punctuation_def characters_set_def characters_default_def)


section \<open>Properties of the command-line launcher\<close>

text \<open>
  C9. With \<open>--launch\<close> (alone or with \<open>--ingest_data\<close>) the only effect is the server
  launch; with \<open>--ingest_data\<close> alone the only effect is the ingestion; with neither flag
  the only effect is printing the usage help, and \<open>main\<close> returns without an error.
\<close>

theorem main_one_action:
  "(launch_flag args \<longrightarrow> fst (main can_start args) = launch)
   \<and> (\<not> launch_flag args \<and> ingest_data_flag args \<longrightarrow> fst (main can_start args) = ingest_data)
   \<and> (\<not> launch_flag args \<and> \<not> ingest_data_flag args \<longrightarrow>
        main can_start args = ([Print_help], Inr ()))
   \<and> length (fst (main can_start args)) = 1
   \<and> length launch = 1 \<and> length ingest_data = 1
   \<and> set launch \<inter> set ingest_data = {} \<and> Print_help \<notin> set launch \<union> set ingest_data"
  by (simp add: main_def main_effects_def launch_def ingest_data_def)

theorem main_one_action_witness:
  "main (\<lambda>cmd. True) \<lparr>launch_flag = True, ingest_data_flag = True\<rparr> = (launch, Inr ())
   \<and> main (\<lambda>cmd. True) \<lparr>launch_flag = False, ingest_data_flag = True\<rparr> = (ingest_data, Inr ())
   \<and> main (\<lambda>cmd. True) \<lparr>launch_flag = False, ingest_data_flag = False\<rparr> = ([Print_help], Inr ())"
  using main_one_action [of "\<lparr>launch_flag = True, ingest_data_flag = True\<rparr>" "\<lambda>cmd. True"]
    main_one_action [of "\<lparr>launch_flag = False, ingest_data_flag = True\<rparr>" "\<lambda>cmd. True"]
    main_one_action [of "\<lparr>launch_flag = False, ingest_data_flag = False\<rparr>" "\<lambda>cmd. True"]
  by (simp add: main_def main_effects_def launch_def ingest_data_def subprocess_run_def)


section \<open>Properties of get\_query\_doc\_pairs\_from\_dpr\_file\<close>

lemma ctx_loop_last:
  "ctx_loop doc cs = (if cs = [] then doc else Some (ctx_text (last cs)))"
  by (induction cs arbitrary: doc) auto

lemma record_loop_question:
  "ds \<noteq> [] \<Longrightarrow> fst (record_loop (q, doc) ds) = Some (question (last ds))"
  by (induction ds arbitrary: q doc) auto

lemma record_loop_document:
  "ds \<noteq> [] \<Longrightarrow> positive_ctxs (last ds) \<noteq> [] \<Longrightarrow>
   snd (record_loop (q, doc) ds) = Some (ctx_text (last (positive_ctxs (last ds))))"
  by (induction ds arbitrary: q doc) (auto simp: ctx_loop_last)

text \<open>
  Whatever the number of records, the function returns one pair: the question of the last
  record with the text of its last positive context.
\<close>

lemma get_query_doc_pairs_single:
  assumes "data \<noteq> []" and "positive_ctxs (last data) \<noteq> []"
  shows "get_query_doc_pairs_from_dpr_file data =
           Inr [\<lparr>pair_question = question (last data),
                 pair_document = ctx_text (last (positive_ctxs (last data)))\<rparr>]"
proof -
  obtain q doc where qd: "record_loop (None, None) data = (q, doc)"
    by (cases "record_loop (None, None) data")
  from record_loop_question [OF assms(1), of None None] qd
  have "q = Some (question (last data))" by simp
  moreover from record_loop_document [OF assms, of None None] qd
  have "doc = Some (ctx_text (last (positive_ctxs (last data))))" by simp
  ultimately show ?thesis
    using qd by (simp add: get_query_doc_pairs_from_dpr_file_def)
qed

text \<open>
  C1 (the code at a two-record input). Two records, each with a question and two
  positive contexts: the function returns one pair, that of the second record, and no
  pair for the first record.
\<close>

theorem get_query_doc_pairs_two_records:
  "get_query_doc_pairs_from_dpr_file
     [\<lparr>question = ''q1'', positive_ctxs =
         [\<lparr>ctx_title = ''t'', ctx_text = ''a1''\<rparr>, \<lparr>ctx_title = ''t'', ctx_text = ''a2''\<rparr>]\<rparr>,
      \<lparr>question = ''q2'', positive_ctxs =
         [\<lparr>ctx_title = ''t'', ctx_text = ''b1''\<rparr>, \<lparr>ctx_title = ''t'', ctx_text = ''b2''\<rparr>]\<rparr>]
   = Inr [\<lparr>pair_question = ''q2'', pair_document = ''b2''\<rparr>]"
  by (simp add: get_query_doc_pairs_from_dpr_file_def)

section \<open>Properties of remove\_incomplete\_sentences\<close>

lemma complete_loop_filter:
  "complete_loop acc ss = acc @ filter (\<lambda>s. sentence_end_regex_match (py_strip s)) ss"
  by (induction ss arbitrary: acc) auto

text \<open>
  The pattern matches a string exactly when the string splits into a part without
  newline, one character of the class, and a rest that the dollar accepts.
\<close>

lemma regex_match_split:
  "sentence_end_regex_match s \<longleftrightarrow>
     (\<exists>pre c rest. s = pre @ c # rest \<and> (\<forall>x \<in> set pre. dot_matches x) \<and> in_class c \<and> at_dollar rest)"
proof (induction s)
  case Nil
  then show ?case by simp
next
  case (Cons a s)
  show ?case
  proof
    assume m: "sentence_end_regex_match (a # s)"
    then consider "in_class a \<and> at_dollar s" | "dot_matches a \<and> sentence_end_regex_match s"
      by auto
    then show "\<exists>pre c rest. a # s = pre @ c # rest \<and> (\<forall>x \<in> set pre. dot_matches x) \<and> in_class c \<and> at_dollar rest"
    proof cases
      case 1
      then have "a # s = [] @ a # s \<and> (\<forall>x \<in> set []. dot_matches x) \<and> in_class a \<and> at_dollar s"
        by simp
      then show ?thesis by blast
    next
      case 2
      with Cons.IH obtain pre c rest where
        "s = pre @ c # rest" "\<forall>x \<in> set pre. dot_matches x" "in_class c" "at_dollar rest"
        by blast
      with 2 have "a # s = (a # pre) @ c # rest \<and> (\<forall>x \<in> set (a # pre). dot_matches x) \<and> in_class c \<and> at_dollar rest"
        by simp
      then show ?thesis by blast
    qed
  next
    assume "\<exists>pre c rest. a # s = pre @ c # rest \<and> (\<forall>x \<in> set pre. dot_matches x) \<and> in_class c \<and> at_dollar rest"
    then obtain pre c rest where
      eq: "a # s = pre @ c # rest" and dots: "\<forall>x \<in> set pre. dot_matches x"
      and cls: "in_class c" and dol: "at_dollar rest"
      by blast
    show "sentence_end_regex_match (a # s)"
    proof (cases pre)
      case Nil
      with eq cls dol show ?thesis by simp
    next
      case (Cons p pre')
      with eq have "a = p" "s = pre' @ c # rest" by simp_all
      moreover from Cons dots have "dot_matches p" "\<forall>x \<in> set pre'. dot_matches x" by simp_all
      ultimately show ?thesis using Cons.IH cls dol by auto
    qed
  qed
qed

lemma newline_is_space: "is_space 10"
  by (simp add: is_space_def whitespace_def)

lemma regex_match_stripped:
  assumes "s = [] \<or> \<not> is_space (last s)"
  shows "sentence_end_regex_match s \<longleftrightarrow> ends_in_terminal s \<and> 10 \<notin> set (butlast s)"
proof
  assume "sentence_end_regex_match s"
  then obtain pre c rest where
    eq: "s = pre @ c # rest" and dots: "\<forall>x \<in> set pre. dot_matches x"
    and cls: "in_class c" and dol: "at_dollar rest"
    using regex_match_split by blast
  from eq assms have "\<not> is_space (last s)" by auto
  with eq dol newline_is_space have "rest = []"
    by (auto simp: at_dollar_def)
  with eq cls dots show "ends_in_terminal s \<and> 10 \<notin> set (butlast s)"
    by (auto simp: ends_in_terminal_def dot_matches_def butlast_append)
next
  assume a: "ends_in_terminal s \<and> 10 \<notin> set (butlast s)"
  then have "s = butlast s @ last s # []" "\<forall>x \<in> set (butlast s). dot_matches x"
    "in_class (last s)" "at_dollar []"
    by (auto simp: ends_in_terminal_def dot_matches_def at_dollar_def)
  then show "sentence_end_regex_match s"
    using regex_match_split by blast
qed

lemma py_strip_stripped: "py_strip s = [] \<or> \<not> is_space (last (py_strip s))"
proof (cases "dropWhile is_space (rev (dropWhile is_space s)) = []")
  case True
  then show ?thesis by (simp add: py_strip_def)
next
  case False
  then have "\<not> is_space (hd (dropWhile is_space (rev (dropWhile is_space s))))"
    by (rule hd_dropWhile)
  with False show ?thesis by (simp add: py_strip_def last_rev)
qed

lemma kept_iff:
  "sentence_end_regex_match (py_strip s) \<longleftrightarrow>
     ends_in_terminal (py_strip s) \<and> 10 \<notin> set (butlast (py_strip s))"
  using regex_match_stripped [OF py_strip_stripped] .

text \<open>
  What the function computes: a sentence is kept when its trimmed text ends in one of
  \<open>. ; !\<close> and has no newline before that last character; the kept sentences are joined
  with single spaces.
\<close>

lemma remove_incomplete_sentences_eq:
  "remove_incomplete_sentences sent_tokenize text =
     py_join (str '' '')
       (filter (\<lambda>s. ends_in_terminal (py_strip s) \<and> 10 \<notin> set (butlast (py_strip s)))
          (sent_tokenize text))"
  by (simp add: remove_incomplete_sentences_def complete_loop_filter kept_iff)

lemma remove_incomplete_sentences_spec_example:
  "remove_incomplete_sentences (\<lambda>t. [str ''This is done.'', str ''This is cut off''])
     (str ''This is done. This is cut off'') = str ''This is done.''"
  by (simp add: remove_incomplete_sentences_def str_def py_strip_def is_space_def
      whitespace_def in_class_def at_dollar_def dot_matches_def)

text \<open>
  C5 (the code at a sentence of two lines). The text is one sentence whose trimmed text
  ends in a full stop, so the claim keeps it; the function drops it and returns the empty
  string, since the dot of the pattern does not pass the newline inside the sentence.
\<close>

theorem remove_incomplete_sentences_drops_multiline:
  "ends_in_terminal (py_strip (str ''Line one\<newline>ends here.''))
   \<and> remove_incomplete_sentences one_sentence (str ''Line one\<newline>ends here.'') = []"
  by (simp add: remove_incomplete_sentences_def one_sentence_def str_def py_strip_def
      is_space_def whitespace_def in_class_def at_dollar_def dot_matches_def ends_in_terminal_def)


section \<open>Properties of split\_squad\_dataset\<close>

lemma paragraph_loop_sum:
  "paragraph_loop counter ps = counter + (\<Sum>p \<leftarrow> ps. int (length (qas p)))"
  by (induction ps arbitrary: counter) auto

text \<open>The articles moved to the test set are a prefix of the shuffled list.\<close>

lemma article_loop_prefix:
  "\<exists>k. snd (article_loop threshold counter test_set rest) = test_set @ take k rest"
proof (induction rest arbitrary: counter test_set)
  case Nil
  then show ?case by simp
next
  case (Cons a rest)
  show ?case
  proof (cases "paragraph_loop counter (paragraphs a) \<ge> threshold")
    case True
    then have "snd (article_loop threshold counter test_set (a # rest)) = test_set @ take 0 (a # rest)"
      by simp
    then show ?thesis by blast
  next
    case False
    from Cons.IH [of "paragraph_loop counter (paragraphs a)" "test_set @ [a]"]
    obtain k where "snd (article_loop threshold (paragraph_loop counter (paragraphs a)) (test_set @ [a]) rest)
        = (test_set @ [a]) @ take k rest"
      by blast
    with False have "snd (article_loop threshold counter test_set (a # rest)) = test_set @ take (Suc k) (a # rest)"
      by simp
    then show ?thesis by blast
  qed
qed

text \<open>The two files split the article list: the dev articles, then the train articles.\<close>

lemma split_squad_dataset_partition:
  "dev_file (split_squad_dataset threshold data) @ train_file (split_squad_dataset threshold data) = data"
proof -
  obtain counter test_set where l: "article_loop threshold 0 [] data = (counter, test_set)"
    by (cases "article_loop threshold 0 [] data")
  from article_loop_prefix [of threshold 0 "[]" data] l
  obtain k where k: "test_set = take k data" by auto
  have "take k data @ drop (length (take k data)) data = data"
    by (cases "k \<le> length data") (simp_all add: min_def)
  with k l show ?thesis by (simp add: split_squad_dataset_def)
qed

lemma article_loop_below:
  "counter = squad_count test_set \<Longrightarrow> counter < threshold \<Longrightarrow>
   squad_count (snd (article_loop threshold counter test_set rest)) < threshold"
proof (induction rest arbitrary: counter test_set)
  case Nil
  then show ?case by simp
next
  case (Cons a rest)
  show ?case
  proof (cases "paragraph_loop counter (paragraphs a) \<ge> threshold")
    case True
    with Cons.prems show ?thesis by simp
  next
    case False
    have "paragraph_loop counter (paragraphs a) = squad_count (test_set @ [a])"
      using Cons.prems(1) by (simp add: paragraph_loop_sum squad_count_def)
    moreover from False have "paragraph_loop counter (paragraphs a) < threshold" by simp
    ultimately have "squad_count (snd (article_loop threshold (paragraph_loop counter (paragraphs a)) (test_set @ [a]) rest)) < threshold"
      by (rule Cons.IH)
    with False show ?thesis by simp
  qed
qed

text \<open>
  The article whose questions take \<open>counter\<close> to the threshold is counted and then left
  in the train set: the questions of the dev file stay below a positive threshold.
\<close>

lemma split_squad_dataset_dev_below_threshold:
  "0 < threshold \<Longrightarrow> squad_count (dev_file (split_squad_dataset threshold data)) < threshold"
proof -
  assume "0 < threshold"
  then have "squad_count (snd (article_loop threshold 0 [] data)) < threshold"
    by (intro article_loop_below) (simp_all add: squad_count_def)
  then show ?thesis
    by (auto simp add: split_squad_dataset_def split: prod.splits)
qed

text \<open>
  C4 (the code at ten articles of one question each). The dataset has ten questions, so
  the threshold at ratio 0.1 is 1. The first article takes the counter to 1 and the loop
  breaks before moving it: the dev file has no article and no question, where the
  smallest cumulative sum that reaches the threshold is 1, the number the function
  prints as the dev set instances; the train file has all ten articles.
\<close>

theorem split_squad_dataset_ten_articles:
  "squad_count ten_articles = 10
   \<and> dev_file (split_squad_dataset 1 ten_articles) = []
   \<and> squad_count (dev_file (split_squad_dataset 1 ten_articles)) = 0
   \<and> printed_dev (split_squad_dataset 1 ten_articles) = 1
   \<and> train_file (split_squad_dataset 1 ten_articles) = ten_articles"
  by (simp add: split_squad_dataset_def squad_count_def one_question_article_def ten_articles_def)

section \<open>Properties of fine\_tune\_reader\_model\<close>

text \<open>The first \<open>try\<close> statement never fails and never changes the state.\<close>

lemma create_output_dir_noop: "create_output_dir s save_dir = Inr s"
  by (simp add: create_output_dir_def os_path_isdir_def)

text \<open>Training starts from the state the function was called in.\<close>

lemma fine_tune_reader_model_trains_in_initial_state:
  "FARMReader env model_name_or_path = Inr reader \<Longrightarrow>
   fine_tune_reader_model env s model_name_or_path data_dir train_filename save_dir use_gpu =
     (case reader_train env reader data_dir train_filename use_gpu 12 1 384 save_dir 1 s of
        (None, s2) \<Rightarrow>
          (Inr (), print (''Model fine-tuning done. Model saved in directory: '' @ save_dir) s2)
      | (Some e, s2) \<Rightarrow>
          (if is_Exception e then (Inr (), print (message_of e) s2) else (Inl e, s2)))"
  by (simp add: fine_tune_reader_model_def create_output_dir_noop)

text \<open>
  C7 (the code at an output directory that does not exist). No directory exists and the
  output directory is \<open>./model\<close>. The first \<open>try\<close> statement leaves the set of
  directories empty, and with a training that touches no directory the whole call ends
  with the set of directories still empty: the function never creates \<open>./model\<close>.
\<close>

theorem fine_tune_reader_model_missing_save_dir:
  "create_output_dir \<lparr>dirs = {}, stdout = []\<rparr> ''./model'' = Inr \<lparr>dirs = {}, stdout = []\<rparr>
   \<and> fine_tune_reader_model quiet_reader_env \<lparr>dirs = {}, stdout = []\<rparr>
        ''deepset/xlm-roberta-base-squad2'' ''data'' ''train.json'' ''./model'' True
      = (Inr (), \<lparr>dirs = {},
           stdout = [''Model fine-tuning done. Model saved in directory: ./model'']\<rparr>)"
  by (simp add: create_output_dir_def os_path_isdir_def fine_tune_reader_model_def print_def
      quiet_reader_env_def)

text \<open>
  C8. When the reader is loaded and the training call raises an exception of class
  \<open>Exception\<close>, the function prints the exception and returns normally: nothing
  propagates to the caller.
\<close>

theorem fine_tune_reader_model_catches_training_errors:
  assumes "FARMReader env model_name_or_path = Inr reader"
    and "reader_train env reader data_dir train_filename use_gpu 12 1 384 save_dir 1 s = (Some e, s2)"
    and "is_Exception e"
  shows "fine_tune_reader_model env s model_name_or_path data_dir train_filename save_dir use_gpu
           = (Inr (), print (message_of e) s2)"
  using assms by (simp add: fine_tune_reader_model_def create_output_dir_noop)

theorem fine_tune_reader_model_catches_training_errors_witness:
  "FARMReader raising_reader_env ''deepset/xlm-roberta-base-squad2''
     = Inr ''deepset/xlm-roberta-base-squad2''
   \<and> reader_train raising_reader_env ''deepset/xlm-roberta-base-squad2'' ''data'' ''train.json'' True
        12 1 384 ''./model'' 1 \<lparr>dirs = {''./model''}, stdout = []\<rparr>
     = (Some (Raised RuntimeError ''CUDA out of memory''), \<lparr>dirs = {''./model''}, stdout = []\<rparr>)
   \<and> is_Exception (Raised RuntimeError ''CUDA out of memory'')
   \<and> fine_tune_reader_model raising_reader_env \<lparr>dirs = {''./model''}, stdout = []\<rparr>
        ''deepset/xlm-roberta-base-squad2'' ''data'' ''train.json'' ''./model'' True
     = (Inr (), \<lparr>dirs = {''./model''}, stdout = [''CUDA out of memory'']\<rparr>)"
  using fine_tune_reader_model_catches_training_errors
    [of raising_reader_env "''deepset/xlm-roberta-base-squad2''" "''deepset/xlm-roberta-base-squad2''"
       "''data''" "''train.json''" True "''./model''" "\<lparr>dirs = {''./model''}, stdout = []\<rparr>"
       "Raised RuntimeError ''CUDA out of memory''" "\<lparr>dirs = {''./model''}, stdout = []\<rparr>"]
  by (simp add: print_def raising_reader_env_def)


section \<open>Properties of the query endpoints\<close>

text \<open>
  C2. When the pipeline run returns a result, both endpoints return a response that has
  the keys \<open>answers\<close> and \<open>documents\<close>: a key the result does not have is bound to the
  empty list, also when the result has neither key, and a key the result has keeps its
  value, a list by the pipeline framework's output contract.
\<close>

theorem query_response_has_answers_and_documents:
  assumes "pipeline_run (query request) (params_or_empty request) = Inr result"
  shows "(\<exists>response log'.
            ask_retriever_reader_pipeline pipeline_run elapsed request log = (Inr response, log')
            \<and> key_in ''answers'' response \<and> key_in ''documents'' response
            \<and> (\<not> key_in ''answers'' result \<longrightarrow> response ''answers'' = Some (PyList []))
            \<and> (\<not> key_in ''documents'' result \<longrightarrow> response ''documents'' = Some (PyList []))
            \<and> (key_in ''answers'' result \<longrightarrow> response ''answers'' = result ''answers'')
            \<and> (key_in ''documents'' result \<longrightarrow> response ''documents'' = result ''documents'')
            \<and> (lists_where_present result \<longrightarrow>
                  has_list response ''answers'' \<and> has_list response ''documents''))
       \<and> (\<exists>response log'.
            ask_rag_pipeline pipeline_run elapsed request log = (Inr response, log')
            \<and> key_in ''answers'' response \<and> key_in ''documents'' response
            \<and> (\<not> key_in ''answers'' result \<longrightarrow> response ''answers'' = Some (PyList []))
            \<and> (\<not> key_in ''documents'' result \<longrightarrow> response ''documents'' = Some (PyList []))
            \<and> (key_in ''answers'' result \<longrightarrow> response ''answers'' = result ''answers'')
            \<and> (key_in ''documents'' result \<longrightarrow> response ''documents'' = result ''documents'')
            \<and> (lists_where_present result \<longrightarrow>
                  has_list response ''answers'' \<and> has_list response ''documents''))"
  using assms
  by (auto simp: ask_retriever_reader_pipeline_def ask_rag_pipeline_def Let_def has_list_def
      key_in_def lists_where_present_def split: option.splits)

theorem query_response_has_answers_and_documents_witness:
  "bare_pipeline_run (query example_request) (params_or_empty example_request)
     = Inr [''query'' \<mapsto> PyStr ''what is covid'']
   \<and> lists_where_present [''query'' \<mapsto> PyStr ''what is covid'']
   \<and> (\<exists>response log'.
         ask_retriever_reader_pipeline bare_pipeline_run ''0.01'' example_request [] = (Inr response, log')
         \<and> response ''answers'' = Some (PyList []) \<and> response ''documents'' = Some (PyList []))
   \<and> (\<exists>response log'.
         ask_rag_pipeline bare_pipeline_run ''0.01'' example_request [] = (Inr response, log')
         \<and> response ''answers'' = Some (PyList []) \<and> response ''documents'' = Some (PyList []))"
  using query_response_has_answers_and_documents
    [of bare_pipeline_run example_request "[''query'' \<mapsto> PyStr ''what is covid'']" "''0.01''" "[]"]
  by (simp add: bare_pipeline_run_def example_request_def lists_where_present_def key_in_def) blast


section \<open>Properties of upload\_files\<close>

text \<open>Every path the write loop collects names a file of the upload directory.\<close>

lemma write_loop_paths_in_dir:
  "set file_paths \<subseteq> dom dir \<Longrightarrow>
   write_loop os_error uuid4_hex i dir file_paths files = (r, dir', file_paths') \<Longrightarrow>
   set file_paths' \<subseteq> dom dir'"
proof (induction files arbitrary: i dir file_paths)
  case Nil
  then show ?case by simp
next
  case (Cons f files)
  show ?case
  proof (cases "open_wb os_error dir (uuid4_hex i @ ''_'' @ filename f)")
    case (Inl e)
    with Cons.prems show ?thesis by simp
  next
    case (Inr p)
    let ?dir = "dir(p \<mapsto> file_bytes f)"
    have pre: "set (file_paths @ [p]) \<subseteq> dom ?dir"
      using Cons.prems(1) by auto
    have run: "write_loop os_error uuid4_hex (Suc i) ?dir (file_paths @ [p]) files = (r, dir', file_paths')"
      using Cons.prems(2) Inr by simp
    from pre run show ?thesis by (rule Cons.IH)
  qed
qed

text \<open>
  On pairwise distinct paths of existing files the unlink loop raises nothing, removes
  each of them and leaves every other file.
\<close>

lemma unlink_loop_removes:
  "distinct ps \<Longrightarrow> set ps \<subseteq> dom dir \<Longrightarrow>
   fst (unlink_loop dir ps) = None \<and> (\<forall>p \<in> set ps. snd (unlink_loop dir ps) p = None)
   \<and> (\<forall>p. p \<notin> set ps \<longrightarrow> snd (unlink_loop dir ps) p = dir p)"
proof (induction ps arbitrary: dir)
  case Nil
  then show ?case by simp
next
  case (Cons p ps)
  let ?dir = "dir(p := None)"
  from Cons.prems obtain b where b: "dir p = Some b" by auto
  have d: "distinct ps" and sub: "set ps \<subseteq> dom ?dir" and notin: "p \<notin> set ps"
    using Cons.prems by auto
  have ih: "fst (unlink_loop ?dir ps) = None \<and> (\<forall>q \<in> set ps. snd (unlink_loop ?dir ps) q = None)
      \<and> (\<forall>q. q \<notin> set ps \<longrightarrow> snd (unlink_loop ?dir ps) q = ?dir q)"
    using d sub by (rule Cons.IH)
  have step: "unlink_loop dir (p # ps) = unlink_loop ?dir ps"
    using b by simp
  show ?case
    unfolding step using ih notin by auto
qed

lemma save_uploads_paths_in_dir:
  assumes "save_uploads os_error uuid4_hex s files recreate_index = (r, s2, file_paths)"
  shows "set file_paths \<subseteq> dom (file_upload s2)"
proof -
  obtain r' dir paths' where w: "write_loop os_error uuid4_hex 0 (file_upload s) [] files = (r', dir, paths')"
    by (cases "write_loop os_error uuid4_hex 0 (file_upload s) [] files")
  have "set paths' \<subseteq> dom dir"
    by (rule write_loop_paths_in_dir [OF _ w]) simp
  moreover have "file_paths = paths'" "file_upload s2 = dir"
    using assms w by (auto simp: save_uploads_def Let_def split: option.splits if_splits)
  ultimately show ?thesis by simp
qed

text \<open>
  A client file name with a directory part: \<open>open\<close> raises for the second file, the
  exception leaves \<open>upload_files\<close> before the indexing run, and the first file stays in
  the upload directory.
\<close>

lemma upload_files_write_raises:
  "fst (upload_files succeeding_indexing_run no_os_error example_uuid4_hex empty_app_state
          example_files_subdir None None)
     = Inl (Raised FileNotFoundError ''9c1e_sub/b.txt'')
   \<and> file_upload (snd (upload_files succeeding_indexing_run no_os_error example_uuid4_hex
          empty_app_state example_files_subdir None None)) ''0f3a_a.txt'' = Some ''alpha''"
  by (simp add: upload_files_def save_uploads_def open_wb_def path_parts_def no_os_error_def
      example_uuid4_hex_def empty_app_state_def example_files_subdir_def)

text \<open>
  When the indexing run raises, the exception leaves \<open>upload_files\<close> before the unlink
  loop: the state is the one the run was called in, with every file of the request.
\<close>

lemma upload_files_indexing_raises:
  assumes "save_uploads os_error uuid4_hex s files recreate_index = (None, s2, file_paths)"
    and "indexing_pipeline_run s2 file_paths = Inl e"
  shows "upload_files indexing_pipeline_run os_error uuid4_hex s files keep_files recreate_index
           = (Inl e, s2)
         \<and> set file_paths \<subseteq> dom (file_upload s2)"
  using assms save_uploads_paths_in_dir [OF assms(1)] by (simp add: upload_files_def)

text \<open>
  C3, as the code has it. With \<open>keep_files\<close> unset or false, every file of the request
  written, pairwise distinct generated paths and an indexing run that returns a result,
  \<open>upload_files\<close> returns that result and none of the request's files is left in the
  upload directory.
\<close>

theorem upload_files_removes_files_after_indexing:
  assumes "save_uploads os_error uuid4_hex s files recreate_index = (None, s2, file_paths)"
    and "indexing_pipeline_run s2 file_paths = Inr result"
    and "distinct file_paths"
    and "keep_files \<noteq> Some True"
  shows "fst (upload_files indexing_pipeline_run os_error uuid4_hex s files keep_files recreate_index)
           = Inr (convert_embeddings result)
         \<and> (\<forall>p \<in> set file_paths.
              file_upload (snd (upload_files indexing_pipeline_run os_error uuid4_hex s files
                keep_files recreate_index)) p = None)"
proof -
  have "set file_paths \<subseteq> dom (file_upload s2)"
    using assms(1) by (rule save_uploads_paths_in_dir)
  from unlink_loop_removes [OF assms(3) this]
  obtain dir' where u: "unlink_loop (file_upload s2) file_paths = (None, dir')"
    and gone: "\<forall>p \<in> set file_paths. dir' p = None"
    by (cases "unlink_loop (file_upload s2) file_paths") auto
  show ?thesis
    using assms(1,2,4) u gone by (simp add: upload_files_def Let_def)
qed

theorem upload_files_removes_files_after_indexing_witness:
  "save_uploads no_os_error example_uuid4_hex empty_app_state example_files None
     = (None, \<lparr>file_upload = [''0f3a_a.txt'' \<mapsto> ''alpha'', ''9c1e_b.txt'' \<mapsto> ''beta''],
          recreate_index_flag = False\<rparr>, [''0f3a_a.txt'', ''9c1e_b.txt''])
   \<and> distinct [''0f3a_a.txt'', ''9c1e_b.txt'']
   \<and> fst (upload_files succeeding_indexing_run no_os_error example_uuid4_hex empty_app_state
        example_files None None)
     = Inr \<lparr>documents = Some [], file_paths_out = [''0f3a_a.txt'', ''9c1e_b.txt'']\<rparr>
   \<and> file_upload (snd (upload_files succeeding_indexing_run no_os_error example_uuid4_hex
        empty_app_state example_files None None)) ''0f3a_a.txt'' = None
   \<and> file_upload (snd (upload_files succeeding_indexing_run no_os_error example_uuid4_hex
        empty_app_state example_files None None)) ''9c1e_b.txt'' = None"
  using upload_files_removes_files_after_indexing
    [of no_os_error example_uuid4_hex empty_app_state example_files None
      "\<lparr>file_upload = [''0f3a_a.txt'' \<mapsto> ''alpha'', ''9c1e_b.txt'' \<mapsto> ''beta''],
        recreate_index_flag = False\<rparr>"
      "[''0f3a_a.txt'', ''9c1e_b.txt'']" succeeding_indexing_run
      "\<lparr>documents = Some [], file_paths_out = [''0f3a_a.txt'', ''9c1e_b.txt'']\<rparr>" None]
  by (simp add: save_uploads_def open_wb_def path_parts_def no_os_error_def
      succeeding_indexing_run_def example_uuid4_hex_def empty_app_state_def example_files_def
      Let_def convert_embeddings_def)

text \<open>
  C3 as stated fails. A request of two files with \<open>keep_files\<close> unset, whose indexing
  run raises: the operation ends with that exception and the first file of the request
  is still in the upload directory.
\<close>

theorem upload_files_keeps_files_when_indexing_raises:
  "fst (upload_files failing_indexing_run no_os_error example_uuid4_hex empty_app_state
          example_files None None)
     = Inl (Raised PipelineError ''document store unavailable'')
   \<and> file_upload (snd (upload_files failing_indexing_run no_os_error example_uuid4_hex
          empty_app_state example_files None None)) ''0f3a_a.txt'' = Some ''alpha''"
  by (simp add: upload_files_def save_uploads_def open_wb_def path_parts_def no_os_error_def
      failing_indexing_run_def example_uuid4_hex_def empty_app_state_def example_files_def Let_def)


section \<open>Properties of run\_experiment\<close>

text \<open>
  Writing the corpus into an existing directory raises nothing, keeps the directory and
  collects one path for each document.
\<close>

lemma doc_loop_keeps_dir:
  "fs tempdir \<noteq> None \<Longrightarrow>
   fst (doc_loop tempdir fs file_paths docs) = None
   \<and> fst (snd (doc_loop tempdir fs file_paths docs)) tempdir \<noteq> None
   \<and> snd (snd (doc_loop tempdir fs file_paths docs)) = file_paths @ corpus_file_paths tempdir docs"
proof (induction docs arbitrary: fs file_paths)
  case Nil
  then show ?case by (simp add: corpus_file_paths_def)
next
  case (Cons doc docs)
  from Cons.prems obtain files where files: "fs tempdir = Some files" by auto
  let ?fs = "fs(tempdir \<mapsto> files(eval_doc_id doc @ ''.txt'' \<mapsto> eval_doc_content doc))"
  let ?paths = "file_paths @ [tempdir @ ''/'' @ eval_doc_id doc @ ''.txt'']"
  have "?fs tempdir \<noteq> None" by simp
  then have "fst (doc_loop tempdir ?fs ?paths docs) = None
      \<and> fst (snd (doc_loop tempdir ?fs ?paths docs)) tempdir \<noteq> None
      \<and> snd (snd (doc_loop tempdir ?fs ?paths docs)) = ?paths @ corpus_file_paths tempdir docs"
    by (rule Cons.IH)
  moreover have "doc_loop tempdir fs file_paths (doc # docs) = doc_loop tempdir ?fs ?paths docs"
    using files by (simp add: Let_def)
  ultimately show ?case by (simp add: corpus_file_paths_def)
qed

lemma get_eval_labels_and_paths_keeps_dir:
  assumes "fs tempdir \<noteq> None"
  shows "\<exists>fs1. get_eval_labels_and_paths document_store tempdir fs
             = (Inr (all_labels_aggregated document_store,
                     corpus_file_paths tempdir (all_documents document_store)), fs1)
           \<and> fs1 tempdir \<noteq> None"
proof -
  obtain r fs1 file_paths where d: "doc_loop tempdir fs [] (all_documents document_store) = (r, fs1, file_paths)"
    by (cases "doc_loop tempdir fs [] (all_documents document_store)")
  from doc_loop_keeps_dir [of fs tempdir "[]" "all_documents document_store"] assms d
  have "r = None" "fs1 tempdir \<noteq> None"
    "file_paths = corpus_file_paths tempdir (all_documents document_store)" by simp_all
  with d show ?thesis by (simp add: get_eval_labels_and_paths_def)
qed

text \<open>
  When the evaluation run raises, the exception leaves \<open>run_experiment\<close> before the
  call of \<open>cleanup\<close>: the temporary directory is still there at that point, and the
  finalizer of the \<open>TemporaryDirectory\<close> object removes it.
\<close>

lemma run_experiment_eval_run_raises:
  assumes "index_eval_labels env eval_filename = Inr eval_ds"
    and "load_from_yaml env pipeline_path ''query'' = Inr query_pipeline"
    and "load_from_yaml env pipeline_path ''indexing'' = Inr index_pipeline"
    and "execute_eval_run env index_pipeline query_pipeline (all_labels_aggregated eval_ds)
           (corpus_file_paths (mkdtemp env) (all_documents eval_ds))
           exp_name run_name (basename eval_filename) query_params = Some e"
  shows "fst (run_experiment env st exp_name eval_filename pipeline_path run_name query_params) = Inl e
         \<and> disk (snd (run_experiment env st exp_name eval_filename pipeline_path run_name query_params))
             (mkdtemp env) \<noteq> None
         \<and> disk (finalize (snd (run_experiment env st exp_name eval_filename pipeline_path run_name
             query_params))) (mkdtemp env) = None"
proof -
  have "disk (TemporaryDirectory (mkdtemp env) st) (mkdtemp env) \<noteq> None"
    by (simp add: TemporaryDirectory_def)
  with get_eval_labels_and_paths_keeps_dir
    [of "disk (TemporaryDirectory (mkdtemp env) st)" "mkdtemp env" eval_ds]
  obtain fs1 where
    "get_eval_labels_and_paths eval_ds (mkdtemp env) (disk (TemporaryDirectory (mkdtemp env) st))
       = (Inr (all_labels_aggregated eval_ds,
               corpus_file_paths (mkdtemp env) (all_documents eval_ds)), fs1)"
    "fs1 (mkdtemp env) \<noteq> None"
    by blast
  then show ?thesis
    using assms by (simp add: run_experiment_def Let_def finalize_def TemporaryDirectory_def)
qed



end
